theory Spec2Isabelle
  imports Main
begin

section \<open>Python values, exceptions and slices\<close>

text \<open>
  A raised Python exception is a value: its class name and the text that \<open>str(e)\<close>
  gives (the text an f-string embeds for \<open>{e}\<close>).  A call that may raise returns
  \<open>exn + 'a\<close>, with \<open>Inl\<close> for the exception.  A list element of a \<open>string\<close>
  stands for one character of a Python \<open>str\<close>.
\<close>

datatype exn = Exn string string

fun exn_str :: "exn \<Rightarrow> string" where
  "exn_str (Exn cls msg) = msg"

text \<open>\<open>xs[-n:]\<close> for a positive constant \<open>n\<close>: the last \<open>n\<close> elements, all of them
  when there are fewer.\<close>

definition lastn :: "nat \<Rightarrow> 'a list \<Rightarrow> 'a list" where
  "lastn n xs = drop (length xs - n) xs"

text \<open>\<open>d.get(k, default)\<close> on a dict.\<close>

definition dict_get :: "('k \<rightharpoonup> 'v) \<Rightarrow> 'k \<Rightarrow> 'v \<Rightarrow> 'v" where
  "dict_get d k dflt = (case d k of None \<Rightarrow> dflt | Some v \<Rightarrow> v)"

section \<open>The conversation store (simple_memory_service.py)\<close>

text \<open>
  One JSON file \<open>conv_<id>.json\<close> per conversation.  The store is the directory: a map
  from conversation ids to files.  A file either parses to the record that
  \<open>create_new_conversation\<close> and the operations below write, or it does not parse
  (\<open>json.load\<close> raises).  Failures of the operating system while reading or writing
  are outside the model.
\<close>

record message =
  msg_id :: string
  role :: string
  content :: string
  timestamp :: string

record conversation =
  conv_id :: string
  title :: string
  created_at :: string
  updated_at :: string
  messages :: "message list"

datatype conv_file = Unreadable | Json conversation

type_synonym store = "string \<rightharpoonup> conv_file"

fun json_load :: "conv_file \<Rightarrow> exn + conversation" where
  "json_load Unreadable = Inl (Exn ''JSONDecodeError'' ''Expecting value'')"
| "json_load (Json d) = Inr d"

text \<open>The values that \<open>uuid.uuid4()\<close> and the two reads of \<open>datetime.now()\<close> give
  during one \<open>add_message_to_conversation\<close>.\<close>

record stamp =
  uuid :: string
  ts :: string
  upd :: string

text \<open>Each operation is the body of its \<open>try\<close> block, and then the function itself,
  whose \<open>except Exception\<close> turns every exception of the body into the failure value.\<close>

definition load_conversation_try :: "store \<Rightarrow> string \<Rightarrow> exn + message list" where
  "load_conversation_try st conversation_id =
     (case st conversation_id of
        Some f \<Rightarrow> (case json_load f of Inl e \<Rightarrow> Inl e | Inr d \<Rightarrow> Inr (messages d))
      | None \<Rightarrow> Inr [])"

definition load_conversation :: "store \<Rightarrow> string \<Rightarrow> exn + message list" where
  "load_conversation st conversation_id =
     (case load_conversation_try st conversation_id of
        Inl e \<Rightarrow> Inr []
      | Inr ms \<Rightarrow> Inr ms)"

definition add_message_try ::
  "store \<Rightarrow> string \<Rightarrow> string \<Rightarrow> string \<Rightarrow> stamp \<Rightarrow> exn + (bool \<times> store)" where
  "add_message_try st conversation_id rl cnt s =
     (case st conversation_id of
        None \<Rightarrow> Inr (False, st)
      | Some f \<Rightarrow>
          (case json_load f of
             Inl e \<Rightarrow> Inl e
           | Inr d \<Rightarrow>
               Inr (True, st(conversation_id \<mapsto> Json (d\<lparr>
                      messages := messages d @
                        [\<lparr>msg_id = uuid s, role = rl, content = cnt, timestamp = ts s\<rparr>],
                      updated_at := upd s\<rparr>)))))"

definition add_message_to_conversation ::
  "store \<Rightarrow> string \<Rightarrow> string \<Rightarrow> string \<Rightarrow> stamp \<Rightarrow> exn + (bool \<times> store)" where
  "add_message_to_conversation st conversation_id rl cnt s =
     (case add_message_try st conversation_id rl cnt s of
        Inl e \<Rightarrow> Inr (False, st)
      | Inr r \<Rightarrow> Inr r)"

definition update_title_try :: "store \<Rightarrow> string \<Rightarrow> string \<Rightarrow> string \<Rightarrow> exn + (bool \<times> store)" where
  "update_title_try st conversation_id new_title now =
     (case st conversation_id of
        None \<Rightarrow> Inr (False, st)
      | Some f \<Rightarrow>
          (case json_load f of
             Inl e \<Rightarrow> Inl e
           | Inr d \<Rightarrow>
               Inr (True, st(conversation_id \<mapsto>
                      Json (d\<lparr>title := new_title, updated_at := now\<rparr>)))))"

definition update_conversation_title ::
  "store \<Rightarrow> string \<Rightarrow> string \<Rightarrow> string \<Rightarrow> exn + (bool \<times> store)" where
  "update_conversation_title st conversation_id new_title now =
     (case update_title_try st conversation_id new_title now of
        Inl e \<Rightarrow> Inr (False, st)
      | Inr r \<Rightarrow> Inr r)"

definition delete_message_try :: "store \<Rightarrow> string \<Rightarrow> string \<Rightarrow> string \<Rightarrow> exn + (bool \<times> store)" where
  "delete_message_try st conversation_id message_id now =
     (case st conversation_id of
        None \<Rightarrow> Inr (False, st)
      | Some f \<Rightarrow>
          (case json_load f of
             Inl e \<Rightarrow> Inl e
           | Inr d \<Rightarrow>
               (let original_count = length (messages d);
                    kept = filter (\<lambda>msg. msg_id msg \<noteq> message_id) (messages d)
                in if length kept = original_count then Inr (False, st)
                   else Inr (True, st(conversation_id \<mapsto>
                          Json (d\<lparr>messages := kept, updated_at := now\<rparr>))))))"

definition delete_message_from_conversation ::
  "store \<Rightarrow> string \<Rightarrow> string \<Rightarrow> string \<Rightarrow> exn + (bool \<times> store)" where
  "delete_message_from_conversation st conversation_id message_id now =
     (case delete_message_try st conversation_id message_id now of
        Inl e \<Rightarrow> Inr (False, st)
      | Inr r \<Rightarrow> Inr r)"

definition clear_conversation_try :: "store \<Rightarrow> string \<Rightarrow> string \<Rightarrow> exn + (bool \<times> store)" where
  "clear_conversation_try st conversation_id now =
     (case st conversation_id of
        None \<Rightarrow> Inr (False, st)
      | Some f \<Rightarrow>
          (case json_load f of
             Inl e \<Rightarrow> Inl e
           | Inr d \<Rightarrow>
               Inr (True, st(conversation_id \<mapsto>
                      Json (d\<lparr>messages := [], updated_at := now\<rparr>)))))"

definition clear_conversation :: "store \<Rightarrow> string \<Rightarrow> string \<Rightarrow> exn + (bool \<times> store)" where
  "clear_conversation st conversation_id now =
     (case clear_conversation_try st conversation_id now of
        Inl e \<Rightarrow> Inr (False, st)
      | Inr r \<Rightarrow> Inr r)"

text \<open>\<open>create_new_conversation\<close>, with the id that \<open>uuid4\<close> gives, cut to eight
  characters, and the two times read; and \<open>delete_conversation\<close>, which removes the
  file.\<close>

record new_conv =
  nc_id :: string
  nc_created :: string
  nc_updated :: string

definition create_new_conversation :: "store \<Rightarrow> new_conv \<Rightarrow> store" where
  "create_new_conversation st nc =
     st(nc_id nc \<mapsto> Json \<lparr>conv_id = nc_id nc, title = ''New Chat'',
                          created_at = nc_created nc, updated_at = nc_updated nc,
                          messages = []\<rparr>)"

definition delete_conversation :: "store \<Rightarrow> string \<Rightarrow> bool \<times> store" where
  "delete_conversation st conversation_id =
     (case st conversation_id of
        Some f \<Rightarrow> (True, st(conversation_id := None))
      | None \<Rightarrow> (False, st))"

section \<open>The translation log of the memory service (simple_memory_service.py)\<close>

text \<open>
  \<open>SimpleMemoryService\<close> holds the user's id and the LangChain chat memory (kind and
  text of each message); the data directory holds one saved-memory file and one
  translation log \<open>translations_<user_id>.json\<close> per user.
\<close>

text \<open>
  A value of the \<open>metadata\<close> dict (\<open>Dict[str, Any]\<close>): one that \<open>json.dump\<close> writes,
  kept as its JSON text, or an object of a type it rejects, kept as the type's name.
\<close>

datatype pyobj = JsonValue string | NotJson string

record translation_entry =
  original_text :: string
  translated_text :: string
  source_language :: string
  target_language :: string
  logged_at :: string
  metadata :: "(string \<times> string) list"

text \<open>
  An element of a stored log is an entry, or any other JSON value (kept as its text).
  A log file does not parse, or parses to a value that is not a list (kept as the name
  of its Python type), or parses to a list.
\<close>

datatype log_item = Entry translation_entry | Foreign string

datatype log_file = LogUnparseable | LogNotList string | LogList "log_item list"

record memory_service =
  ms_user_id :: string
  chat_messages :: "(string \<times> string) list"
  memory_files :: "string \<rightharpoonup> (string \<times> string) list"
  translation_files :: "string \<rightharpoonup> log_file"

text \<open>
  \<open>_save_memory\<close> tests each message with \<open>isinstance(message, HumanMessage)\<close>, and the
  module imports neither \<open>HumanMessage\<close> nor \<open>AIMessage\<close>: with a message in the
  chat memory the first test raises NameError, which the function's
  \<open>except Exception\<close> logs, and nothing is written.
\<close>

definition save_memory_try :: "memory_service \<Rightarrow> exn + memory_service" where
  "save_memory_try ms =
     (if chat_messages ms = []
      then Inr (ms\<lparr>memory_files := (memory_files ms)(ms_user_id ms \<mapsto> [])\<rparr>)
      else Inl (Exn ''NameError''
             (''name '' @ [CHR 0x27] @ ''HumanMessage'' @ [CHR 0x27] @ '' is not defined'')))"

definition save_memory :: "memory_service \<Rightarrow> memory_service" where
  "save_memory ms = (case save_memory_try ms of Inl e \<Rightarrow> ms | Inr ms' \<Rightarrow> ms')"

text \<open>What \<open>json.dump\<close> makes of the metadata: the JSON text of each value, or the
  TypeError of the first value it cannot write.\<close>

fun dump_metadata :: "(string \<times> pyobj) list \<Rightarrow> exn + (string \<times> string) list" where
  "dump_metadata [] = Inr []"
| "dump_metadata ((k, JsonValue v) # kvs) =
     (case dump_metadata kvs of Inl e \<Rightarrow> Inl e | Inr r \<Rightarrow> Inr ((k, v) # r))"
| "dump_metadata ((k, NotJson ty) # kvs) =
     Inl (Exn ''TypeError'' (''Object of type '' @ ty @ '' is not JSON serializable''))"

text \<open>What \<open>json.load\<close> and then \<open>translations.append\<close> make of the log file: the
  list read, or the exception raised.  With no file the list is empty.\<close>

fun read_log :: "log_file option \<Rightarrow> exn + log_item list" where
  "read_log None = Inr []"
| "read_log (Some LogUnparseable) = Inl (Exn ''JSONDecodeError'' ''Expecting value'')"
| "read_log (Some (LogNotList ty)) =
     Inl (Exn ''AttributeError''
       ([CHR 0x27] @ ty @ [CHR 0x27] @ '' object has no attribute '' @
        [CHR 0x27] @ ''append'' @ [CHR 0x27]))"
| "read_log (Some (LogList l)) = Inr l"

text \<open>
  The body of the \<open>try\<close> of \<open>_save_translation_to_log\<close>: the new state, or the
  exception raised with the state it leaves.  The file is opened for writing before
  \<open>json.dump\<close> runs, so a value that \<open>json.dump\<close> rejects leaves a file cut short,
  which does not parse.
\<close>

definition save_translation_to_log_try ::
  "memory_service \<Rightarrow> string \<Rightarrow> string \<Rightarrow> string \<Rightarrow> string \<Rightarrow>
   (string \<times> pyobj) list option \<Rightarrow> string \<Rightarrow> (exn \<times> memory_service) + memory_service" where
  "save_translation_to_log_try ms original translated src tgt md now =
     (case read_log (translation_files ms (ms_user_id ms)) of
        Inl e \<Rightarrow> Inl (e, ms)
      | Inr existing \<Rightarrow>
          (case dump_metadata (case md of None \<Rightarrow> [] | Some m \<Rightarrow> m) of
             Inl e \<Rightarrow>
               Inl (e, ms\<lparr>translation_files :=
                          (translation_files ms)(ms_user_id ms \<mapsto> LogUnparseable)\<rparr>)
           | Inr written \<Rightarrow>
               (let translation_entry =
                      Entry \<lparr>original_text = original, translated_text = translated,
                             source_language = src, target_language = tgt, logged_at = now,
                             metadata = written\<rparr>;
                    translations = existing @ [translation_entry];
                    translations = (if length translations > 100 then lastn 100 translations
                                    else translations)
                in Inr (ms\<lparr>translation_files :=
                          (translation_files ms)(ms_user_id ms \<mapsto> LogList translations)\<rparr>))))"

text \<open>\<open>_save_translation_to_log\<close>: its \<open>except Exception\<close> logs the exception and goes
  on with the state as it is.\<close>

definition save_translation_to_log ::
  "memory_service \<Rightarrow> string \<Rightarrow> string \<Rightarrow> string \<Rightarrow> string \<Rightarrow>
   (string \<times> pyobj) list option \<Rightarrow> string \<Rightarrow> memory_service" where
  "save_translation_to_log ms original translated src tgt md now =
     (case save_translation_to_log_try ms original translated src tgt md now of
        Inl (e, ms') \<Rightarrow> ms'
      | Inr ms' \<Rightarrow> ms')"

definition add_translation_memory ::
  "memory_service \<Rightarrow> string \<Rightarrow> string \<Rightarrow> string \<Rightarrow> string \<Rightarrow>
   (string \<times> pyobj) list option \<Rightarrow> string \<Rightarrow> bool \<times> memory_service" where
  "add_translation_memory ms original translated src tgt md now =
     (let ms1 = ms\<lparr>chat_messages := chat_messages ms @
                   [(''human'', ''I want to translate: '' @ original),
                    (''ai'', ''Translation: '' @ translated)]\<rparr>;
          ms2 = save_memory ms1;
          ms3 = save_translation_to_log ms2 original translated src tgt md now
      in (True, ms3))"

section \<open>The tutor service (langchain_service.py)\<close>

subsection \<open>Routing\<close>

text \<open>
  What the router model returns: a message with an optional list of tool calls and an
  optional text.  The arguments of a tool call are a dict or a string of JSON; a dict's
  values are kept as the text that an f-string gives for them.  \<open>json.loads\<close> gives a
  dict, or a value of another type (named by its Python type), or raises.
\<close>

datatype args_val = ADict "string \<rightharpoonup> string" | ANonDict string

datatype raw_args = RawStr string | RawDict "string \<rightharpoonup> string"

record tool_call =
  tc_name :: string
  tc_arguments :: raw_args

record chat_response =
  tool_calls :: "tool_call list option"
  msg_content :: "string option"

record route =
  tool :: string
  args :: args_val

datatype mem0_item = ItemDict "string \<rightharpoonup> string" | ItemStr string | ItemOther string

datatype mem0_response =
  RespDict "string \<rightharpoonup> mem0_item list" | RespList "mem0_item list" | RespOther

record mem0_record =
  rec_messages :: "(string \<times> string) list"
  rec_user_id :: string
  rec_metadata :: "(string \<rightharpoonup> string) option"

text \<open>
  The collaborators outside the repository, as functions from the request to its
  outcome: the Ollama router, \<open>json.loads\<close>, the two LangChain models, Mem0, and the
  ids and times that \<open>uuid4\<close> and the clock give during one turn.
\<close>

record backend =
  ollama_chat :: "string \<Rightarrow> exn + chat_response"
  json_loads :: "string \<Rightarrow> exn + args_val"
  translation_llm :: "string \<Rightarrow> exn + string"
  reasoning_llm :: "string \<Rightarrow> string \<Rightarrow> exn + string"
  mem0_search :: "string \<Rightarrow> string \<Rightarrow> exn + mem0_response"
  mem0_add :: "mem0_record \<Rightarrow> exn + unit"
  user_stamp :: stamp
  reply_stamp :: stamp
  title_time :: string

definition chat_route :: route where
  "chat_route = \<lparr>tool = ''chat'', args = ADict Map.empty\<rparr>"

text \<open>The body of the \<open>try\<close> of \<open>_route_message\<close>.  In the branch without tool calls
  the log line slices \<open>response.message.content\<close>, which raises TypeError when the
  content is \<open>None\<close>.\<close>

definition route_try :: "backend \<Rightarrow> string \<Rightarrow> exn + route" where
  "route_try be user_message =
     (case ollama_chat be user_message of
        Inl e \<Rightarrow> Inl e
      | Inr response \<Rightarrow>
          (case tool_calls response of
             Some (tool_call # rest) \<Rightarrow>
               (let tool_name = tc_name tool_call;
                    tool_args = (case tc_arguments tool_call of
                                   RawStr s \<Rightarrow>
                                     (case json_loads be s of
                                        Inl e \<Rightarrow> ADict Map.empty
                                      | Inr v \<Rightarrow> v)
                                 | RawDict d \<Rightarrow> ADict d)
                in Inr \<lparr>tool = tool_name, args = tool_args\<rparr>)
           | _ \<Rightarrow>
               (case msg_content response of
                  None \<Rightarrow> Inl (Exn ''TypeError''
                         ([CHR 0x27] @ ''NoneType'' @ [CHR 0x27] @ '' object is not subscriptable''))
                | Some text \<Rightarrow> Inr chat_route)))"

definition route_message :: "backend \<Rightarrow> string \<Rightarrow> exn + route" where
  "route_message be user_message =
     (case route_try be user_message of
        Inl e \<Rightarrow> Inr chat_route
      | Inr r \<Rightarrow> Inr r)"

subsection \<open>Execution\<close>

text \<open>\<open>str.strip()\<close>: the characters for which \<open>str.isspace\<close> holds, among the
  code points below 256, are removed from both ends.\<close>

definition is_space :: "char \<Rightarrow> bool" where
  "is_space c \<longleftrightarrow>
     c \<in> set [CHR 0x09, CHR 0x0A, CHR 0x0B, CHR 0x0C, CHR 0x0D, CHR 0x1C, CHR 0x1D,
              CHR 0x1E, CHR 0x1F, CHR 0x20, CHR 0x85, CHR 0xA0]"

definition strip :: "string \<Rightarrow> string" where
  "strip s = rev (dropWhile is_space (rev (dropWhile is_space s)))"

text \<open>\<open>"\n".join(lines)\<close>.\<close>

fun join_lines :: "string list \<Rightarrow> string" where
  "join_lines [] = []"
| "join_lines [x] = x"
| "join_lines (x # y # ys) = x @ ''\<newline>'' @ join_lines (y # ys)"

definition memory_block :: "string list \<Rightarrow> string" where
  "memory_block memories =
     (if memories = [] then []
      else ''Relevant memories about the user:\<newline>'' @
           join_lines (map (\<lambda>mem. ''- '' @ mem) memories))"

text \<open>The loop over \<open>conversation_history[-6:]\<close>: one line per message, its content cut
  to 200 characters and followed by three dots.\<close>

definition conv_lines :: "message list \<Rightarrow> string list" where
  "conv_lines conversation_history =
     map (\<lambda>msg. role msg @ '': '' @ take 200 (content msg) @ ''...'')
       (lastn 6 conversation_history)"

definition conv_block :: "message list \<Rightarrow> string" where
  "conv_block conversation_history =
     (if conversation_history = [] then [] else join_lines (conv_lines conversation_history))"

definition system_prompt :: "string \<Rightarrow> string \<Rightarrow> string \<Rightarrow> string" where
  "system_prompt user_name target_lang memory_str =
     ''You are a friendly language tutor helping '' @ user_name @ '' learn '' @ target_lang @
     ''.\<newline>\<newline>'' @ memory_str @
     ''\<newline>\<newline>Be warm, encouraging, and practical. Keep responses concise but helpful.''"

definition attribute_error :: "string \<Rightarrow> exn" where
  "attribute_error ty =
     Exn ''AttributeError''
       ([CHR 0x27] @ ty @ [CHR 0x27] @ '' object has no attribute '' @
        [CHR 0x27] @ ''get'' @ [CHR 0x27])"

text \<open>The task of the reasoning model.  \<open>teach\<close> and \<open>exercise\<close> read the arguments with
  \<open>args.get\<close>, which raises AttributeError on a value that is not a dict; \<open>chat\<close> does
  not read them.\<close>

definition task_prompt ::
  "string \<Rightarrow> args_val \<Rightarrow> string \<Rightarrow> string \<Rightarrow> string \<Rightarrow> exn + string" where
  "task_prompt tname ar user_message target_lang conv_str =
     (if tname = ''teach'' then
        (case ar of
           ANonDict ty \<Rightarrow> Inl (attribute_error ty)
         | ADict d \<Rightarrow>
             (let topic = dict_get d ''topic'' user_message;
                  lang = dict_get d ''language'' target_lang
              in Inr (''Teach about: '' @ topic @ '' in '' @ lang @
                   ''\<newline>\<newline>Include:\<newline>1. The word/phrase with pronunciation\<newline>2. Meaning and usage\<newline>3. 1-2 example sentences\<newline>4. A quick tip\<newline>\<newline>Keep it concise and engaging.'')))
      else if tname = ''exercise'' then
        (case ar of
           ANonDict ty \<Rightarrow> Inl (attribute_error ty)
         | ADict d \<Rightarrow>
             (let ex_type = dict_get d ''type'' ''mixed'';
                  lang = dict_get d ''language'' target_lang;
                  difficulty = dict_get d ''difficulty'' ''beginner''
              in Inr (''Create a quick '' @ difficulty @ '' '' @ lang @
                   '' exercise.\<newline>\<newline>- 3 questions max\<newline>- Include answer key\<newline>- Be encouraging'')))
      else
        Inr (''Student says: '' @ [CHR 0x22] @ user_message @ [CHR 0x22] @ ''\<newline>\<newline>'' @
             conv_str @
             ''\<newline>\<newline>Respond naturally as their tutor. Be friendly and helpful.''))"

definition translation_reply :: "string \<Rightarrow> string \<Rightarrow> string" where
  "translation_reply target translation =
     ''Here's the translation to '' @ target @ '':\<newline>\<newline>**'' @ translation @
     ''**\<newline>\<newline>Would you like me to break down any part of this?''"

text \<open>A call of an inference model, with its outcome: the prompt of the translation
  model, or the system and human messages of the reasoning model.\<close>

datatype llm_call =
  TranslationCall string "exn + string"
| ReasoningCall string string "exn + string"

fun call_outcome :: "llm_call \<Rightarrow> exn + string" where
  "call_outcome (TranslationCall prompt r) = r"
| "call_outcome (ReasoningCall sys task r) = r"

text \<open>\<open>_execute_and_respond\<close> gives the reply, or the exception that leaves it, and the
  model calls it made.  With a profile that is empty the defaults of \<open>dict_get\<close> are the
  values of the \<open>else\<close> branches of the source.\<close>

definition execute_and_respond ::
  "backend \<Rightarrow> string \<Rightarrow> args_val \<Rightarrow> string \<Rightarrow> string list \<Rightarrow> (string \<rightharpoonup> string) \<Rightarrow>
   message list \<Rightarrow> (exn + string) \<times> llm_call list" where
  "execute_and_respond be tname ar user_message memories user_profile conversation_history =
     (let user_name = dict_get user_profile ''user_name'' ''Student'';
          target_lang = dict_get user_profile ''target_language'' ''Spanish'';
          memory_str = memory_block memories;
          conv_str = conv_block conversation_history
      in if tname = ''translate'' then
           (case ar of
              ANonDict ty \<Rightarrow> (Inl (attribute_error ty), [])
            | ADict d \<Rightarrow>
                (let text = dict_get d ''text'' user_message;
                     target = dict_get d ''target_language'' target_lang;
                     prompt = ''Translate to '' @ target @ '': '' @ text;
                     outcome = translation_llm be prompt
                 in ((case outcome of
                        Inr c \<Rightarrow> Inr (translation_reply target (strip c))
                      | Inl e \<Rightarrow> Inr (''Sorry, I had trouble translating that: '' @ exn_str e)),
                     [TranslationCall prompt outcome])))
         else
           (case task_prompt tname ar user_message target_lang conv_str of
              Inl e \<Rightarrow> (Inl e, [])
            | Inr task \<Rightarrow>
                (let sys = system_prompt user_name target_lang memory_str;
                     outcome = reasoning_llm be sys task
                 in ((case outcome of
                        Inr c \<Rightarrow> Inr (strip c)
                      | Inl e \<Rightarrow> Inr (''Sorry, I encountered an error: '' @ exn_str e)),
                     [ReasoningCall sys task outcome]))))"

datatype tutor_result = Success string "string option" | Failure string

text \<open>\<open>chat_with_tutor\<close>: route, execute, and the \<open>except Exception\<close> around both.\<close>

definition chat_with_tutor ::
  "backend \<Rightarrow> string \<Rightarrow> message list \<Rightarrow> string list \<Rightarrow> (string \<rightharpoonup> string) option \<Rightarrow>
   tutor_result \<times> llm_call list" where
  "chat_with_tutor be msg conversation_history mem0_memories user_profile =
     (case route_message be msg of
        Inl e \<Rightarrow> (Failure (exn_str e), [])
      | Inr rt \<Rightarrow>
          (case execute_and_respond be (tool rt) (args rt) msg mem0_memories
                  (case user_profile of None \<Rightarrow> Map.empty | Some p \<Rightarrow> p)
                  conversation_history of
             (Inl e, calls) \<Rightarrow> (Failure (exn_str e), calls)
           | (Inr response, calls) \<Rightarrow>
               (Success response (if tool rt \<noteq> ''chat'' then Some (tool rt) else None), calls)))"

section \<open>The application (tutor_app.py)\<close>

text \<open>
  The fields of \<open>TutorApp\<close> that a turn reads or writes, with the conversation
  directory and the records that Mem0 has accepted.  \<open>memory_service_ok\<close>,
  \<open>tutor_service_ok\<close> and \<open>mem0_ok\<close> say that the attribute is not \<open>None\<close>;
  \<open>chat_area\<close> is the transcript on screen.
\<close>

record tutor_app =
  memory_service_ok :: bool
  tutor_service_ok :: bool
  mem0_ok :: bool
  current_conversation_id :: "string option"
  user_id :: string
  user_profile :: "(string \<rightharpoonup> string) option"
  is_processing :: bool
  pending_user_message :: "string option"
  conversations :: store
  mem0_records :: "mem0_record list"
  chat_area :: "(string \<times> string) list"

text \<open>The guard \<open>if self.memory_service and self.current_conversation_id\<close>: it passes
  with a memory service and a conversation id that is neither \<open>None\<close> nor empty.\<close>

definition active_conversation :: "tutor_app \<Rightarrow> string option" where
  "active_conversation app =
     (if memory_service_ok app then
        (case current_conversation_id app of
           None \<Rightarrow> None
         | Some c \<Rightarrow> if c = [] then None else Some c)
      else None)"

text \<open>The Mem0 search of \<open>_send_message\<close>, with the shapes of answer it handles.  Every
  exception of the block is caught; the search is the call in it that the model lets
  raise.\<close>

definition memory_text :: "mem0_item \<Rightarrow> string" where
  "memory_text m =
     (case m of
        ItemDict d \<Rightarrow> dict_get d ''memory'' (dict_get d ''text'' [])
      | ItemStr s \<Rightarrow> s
      | ItemOther s \<Rightarrow> s)"

definition results_list :: "mem0_response \<Rightarrow> mem0_item list" where
  "results_list mem0_results =
     (case mem0_results of
        RespDict d \<Rightarrow> dict_get d ''results'' (dict_get d ''memories'' [])
      | RespList l \<Rightarrow> l
      | RespOther \<Rightarrow> [])"

definition search_memories :: "backend \<Rightarrow> tutor_app \<Rightarrow> string \<Rightarrow> string list" where
  "search_memories be app msg =
     (if mem0_ok app then
        (case mem0_search be msg (user_id app) of
           Inl e \<Rightarrow> []
         | Inr mem0_results \<Rightarrow>
             filter (\<lambda>t. t \<noteq> []) (map memory_text (results_list mem0_results)))
      else [])"

text \<open>
  \<open>_send_message\<close>, up to the start of the background thread.  It gives the new state
  and, when the turn goes on, the conversation history and the memories handed to the
  tutor service.
\<close>

definition send_message ::
  "backend \<Rightarrow> tutor_app \<Rightarrow> string \<Rightarrow>
   exn + (tutor_app \<times> (message list \<times> string list) option)" where
  "send_message be app msg =
     (if is_processing app \<or> strip msg = [] then Inr (app, None)
      else if \<not> tutor_service_ok app then
        Inr (app\<lparr>chat_area := chat_area app @
               [(''assistant'',
                 ''Sorry, the tutor service is not available. Please check if Ollama is running.'')]\<rparr>,
             None)
      else
        (let app1 = app\<lparr>is_processing := True,
                         chat_area := chat_area app @ [(''user'', msg)]\<rparr>
         in case (case active_conversation app1 of
                    None \<Rightarrow> Inr app1
                  | Some c \<Rightarrow>
                      (case add_message_to_conversation (conversations app1) c ''user'' msg
                              (user_stamp be) of
                         Inl e \<Rightarrow> Inl e
                       | Inr (ok, st) \<Rightarrow> Inr (app1\<lparr>conversations := st\<rparr>))) of
              Inl e \<Rightarrow> Inl e
            | Inr app2 \<Rightarrow>
                (case (case active_conversation app2 of
                         None \<Rightarrow> Inr []
                       | Some c \<Rightarrow> load_conversation (conversations app2) c) of
                   Inl e \<Rightarrow> Inl e
                 | Inr conversation_history \<Rightarrow>
                     (let mem0_memories = search_memories be app2 msg
                      in Inr (app2\<lparr>pending_user_message := Some msg\<rparr>,
                              Some (conversation_history, mem0_memories))))))"

text \<open>\<open>get_response\<close>, the body of the background thread: the reply handed to
  \<open>_handle_response\<close>, and the model calls made.\<close>

definition get_response ::
  "backend \<Rightarrow> tutor_app \<Rightarrow> string \<Rightarrow> message list \<Rightarrow> string list \<Rightarrow> string \<times> llm_call list" where
  "get_response be app msg conversation_history mem0_memories =
     (case chat_with_tutor be msg conversation_history mem0_memories (user_profile app) of
        (Success response used, calls) \<Rightarrow> (response, calls)
      | (Failure err, calls) \<Rightarrow> (''Sorry, I encountered an error: '' @ err, calls))"

text \<open>The title that \<open>_update_conversation_title\<close> computes from the first message:
  \<open>first_msg[:50] + ("..." if len(first_msg) > 50 else "")\<close>.\<close>

definition title_of :: "string \<Rightarrow> string" where
  "title_of first_msg = take 50 first_msg @ (if length first_msg > 50 then ''...'' else [])"

text \<open>\<open>_update_conversation_title\<close>.  Its last call, \<open>_load_conversations\<close>, redraws the
  sidebar; with a current conversation that has a file it changes nothing else.\<close>

definition update_title_of_current :: "backend \<Rightarrow> tutor_app \<Rightarrow> tutor_app" where
  "update_title_of_current be app =
     (case active_conversation app of
        None \<Rightarrow> app
      | Some c \<Rightarrow>
          (case load_conversation (conversations app) c of
             Inl e \<Rightarrow> app
           | Inr msgs \<Rightarrow>
               (if msgs \<noteq> [] \<and> length msgs \<ge> 1 then
                  (case update_conversation_title (conversations app) c
                          (title_of (content (hd msgs))) (title_time be) of
                     Inl e \<Rightarrow> app
                   | Inr (ok, st) \<Rightarrow> app\<lparr>conversations := st\<rparr>)
                else app)))"

text \<open>The record that \<open>store_in_mem0\<close> hands to \<open>mem0.add\<close>: two messages and the user
  id, no metadata.\<close>

definition mem0_payload :: "tutor_app \<Rightarrow> string \<Rightarrow> string \<Rightarrow> mem0_record" where
  "mem0_payload app pending response =
     (let profile = (case user_profile app of None \<Rightarrow> Map.empty | Some p \<Rightarrow> p);
          user_name = dict_get profile ''user_name'' ''Student'';
          target_lang = dict_get profile ''target_language'' ''Spanish''
      in \<lparr>rec_messages =
             [(''user'', user_name @ '' (learning '' @ target_lang @ '') said: '' @ pending),
              (''assistant'', ''Tutor responded: '' @ response)],
           rec_user_id = user_id app,
           rec_metadata = None\<rparr>)"

definition store_in_mem0 :: "backend \<Rightarrow> tutor_app \<Rightarrow> string \<Rightarrow> tutor_app" where
  "store_in_mem0 be app response =
     (if mem0_ok app then
        (case pending_user_message app of
           None \<Rightarrow> app
         | Some pending \<Rightarrow>
             (case mem0_add be (mem0_payload app pending response) of
                Inl e \<Rightarrow> app
              | Inr u \<Rightarrow>
                  app\<lparr>mem0_records := mem0_records app @ [mem0_payload app pending response]\<rparr>))
      else app)"

text \<open>\<open>_handle_response\<close>, with the Mem0 thread it starts run to its end.\<close>

definition handle_response :: "backend \<Rightarrow> tutor_app \<Rightarrow> string \<Rightarrow> exn + tutor_app" where
  "handle_response be app response =
     (let app1 = app\<lparr>chat_area := chat_area app @ [(''assistant'', response)]\<rparr>
      in case (case active_conversation app1 of
                 None \<Rightarrow> Inr app1
               | Some c \<Rightarrow>
                   (case add_message_to_conversation (conversations app1) c ''assistant''
                           response (reply_stamp be) of
                      Inl e \<Rightarrow> Inl e
                    | Inr (ok, st) \<Rightarrow>
                        Inr (update_title_of_current be (app1\<lparr>conversations := st\<rparr>)))) of
           Inl e \<Rightarrow> Inl e
         | Inr app2 \<Rightarrow> Inr ((store_in_mem0 be app2 response)\<lparr>is_processing := False\<rparr>))"

text \<open>
  The handlers of the interface that can run while the background thread works:
  \<open>InputBar.set_enabled(False)\<close> disables the text box and Send only, and
  \<open>_clear_chat\<close>, \<open>_select_conversation\<close> and \<open>_delete_message\<close> do not test
  \<open>is_processing\<close>; nor do \<open>_new_chat\<close> and \<open>_delete_conversation\<close>.  Each catches
  its exceptions.  \<open>ChatArea.load_messages\<close> replaces the transcript by the role and
  content of each message.
\<close>

definition load_messages :: "message list \<Rightarrow> (string \<times> string) list" where
  "load_messages msgs = map (\<lambda>msg. (role msg, content msg)) msgs"

definition clear_chat :: "tutor_app \<Rightarrow> string \<Rightarrow> tutor_app" where
  "clear_chat app now =
     (case active_conversation app of
        None \<Rightarrow> app
      | Some c \<Rightarrow>
          (case clear_conversation (conversations app) c now of
             Inl e \<Rightarrow> app
           | Inr (ok, st) \<Rightarrow> app\<lparr>conversations := st, chat_area := []\<rparr>))"

definition select_conversation :: "tutor_app \<Rightarrow> string \<Rightarrow> tutor_app" where
  "select_conversation app conversation_id =
     (if \<not> memory_service_ok app then app
      else
        (let app1 = app\<lparr>current_conversation_id := Some conversation_id\<rparr>
         in case load_conversation (conversations app1) conversation_id of
              Inl e \<Rightarrow> app1
            | Inr msgs \<Rightarrow> app1\<lparr>chat_area := load_messages msgs\<rparr>))"

definition delete_message :: "tutor_app \<Rightarrow> string \<Rightarrow> string \<Rightarrow> tutor_app" where
  "delete_message app message_id now =
     (case active_conversation app of
        None \<Rightarrow> app
      | Some c \<Rightarrow>
          (case delete_message_from_conversation (conversations app) c message_id now of
             Inl e \<Rightarrow> app
           | Inr (ok, st) \<Rightarrow>
               (case load_conversation st c of
                  Inl e \<Rightarrow> app\<lparr>conversations := st\<rparr>
                | Inr msgs \<Rightarrow> app\<lparr>conversations := st, chat_area := load_messages msgs\<rparr>)))"

text \<open>\<open>_new_chat\<close>.  The \<open>_load_conversations\<close> it ends with finds the new conversation
  listed and a current id set, and changes nothing.\<close>

definition new_chat :: "tutor_app \<Rightarrow> new_conv \<Rightarrow> tutor_app" where
  "new_chat app nc =
     (if \<not> memory_service_ok app then app
      else app\<lparr>conversations := create_new_conversation (conversations app) nc,
               current_conversation_id := Some (nc_id nc),
               chat_area := []\<rparr>)"

text \<open>
  \<open>_load_conversations\<close> and \<open>_delete_conversation\<close>.  Both take the first entry of
  \<open>get_all_conversations()\<close>, the conversation updated last; \<open>listing\<close> is the id of
  that entry, or \<open>None\<close> when no conversation is listed.
\<close>

definition load_conversations :: "tutor_app \<Rightarrow> string option \<Rightarrow> new_conv \<Rightarrow> tutor_app" where
  "load_conversations app listing nc =
     (if \<not> memory_service_ok app then app
      else
        (case listing of
           Some first \<Rightarrow>
             (if current_conversation_id app = None \<or> current_conversation_id app = Some []
              then select_conversation app first else app)
         | None \<Rightarrow> new_chat app nc))"

definition delete_conversation_of ::
  "tutor_app \<Rightarrow> string \<Rightarrow> string option \<Rightarrow> new_conv \<Rightarrow> tutor_app" where
  "delete_conversation_of app conversation_id listing nc =
     (if \<not> memory_service_ok app then app
      else
        (case delete_conversation (conversations app) conversation_id of
           (ok, st) \<Rightarrow>
             (let app1 = app\<lparr>conversations := st\<rparr>
              in if Some conversation_id = current_conversation_id app1 then
                   (case listing of
                      Some first \<Rightarrow> select_conversation app1 first
                    | None \<Rightarrow> new_chat app1 nc)
                 else load_conversations app1 listing nc)))"

text \<open>An event of the interface, with what its handler takes from outside: the time
  the clock gives where it writes a file, the id and times of a conversation it may
  create, and the listing.\<close>

datatype ui_event =
  ClearChat string
| SelectConversation string
| DeleteMessage string string
| NewChat new_conv
| DeleteConversation string "string option" new_conv

fun handle_event :: "ui_event \<Rightarrow> tutor_app \<Rightarrow> tutor_app" where
  "handle_event (ClearChat now) app = clear_chat app now"
| "handle_event (SelectConversation conversation_id) app = select_conversation app conversation_id"
| "handle_event (DeleteMessage message_id now) app = delete_message app message_id now"
| "handle_event (NewChat nc) app = new_chat app nc"
| "handle_event (DeleteConversation conversation_id listing nc) app =
     delete_conversation_of app conversation_id listing nc"

fun run_events :: "ui_event list \<Rightarrow> tutor_app \<Rightarrow> tutor_app" where
  "run_events [] app = app"
| "run_events (ev # evs) app = run_events evs (handle_event ev app)"

text \<open>
  One turn: \<open>_send_message\<close>, then the thread's \<open>get_response\<close>, then the
  \<open>_handle_response\<close> it schedules on the main thread.  \<open>evs\<close> are the events of the
  interface handled in between, in their order; \<open>_handle_response\<close> reads the current
  conversation id and the store as they are after them.  The result is the final state
  and, when the message was taken, the reply and the model calls; \<open>Inl\<close> would be an
  exception reaching the event loop.
\<close>

definition turn ::
  "backend \<Rightarrow> tutor_app \<Rightarrow> string \<Rightarrow> ui_event list \<Rightarrow>
   exn + (tutor_app \<times> (string \<times> llm_call list) option)" where
  "turn be app msg evs =
     (case send_message be app msg of
        Inl e \<Rightarrow> Inl e
      | Inr (app1, None) \<Rightarrow> Inr (app1, None)
      | Inr (app1, Some (conversation_history, mem0_memories)) \<Rightarrow>
          (case get_response be app1 msg conversation_history mem0_memories of
             (response, calls) \<Rightarrow>
               (case handle_response be (run_events evs app1) response of
                  Inl e \<Rightarrow> Inl e
                | Inr app2 \<Rightarrow> Inr (app2, Some (response, calls)))))"

section \<open>Notions used in the statements\<close>

text \<open>\<open>_send_message\<close> goes past its two early returns: no turn is in progress,
  the message is not blank, and the tutor service exists.\<close>

definition taken :: "tutor_app \<Rightarrow> string \<Rightarrow> bool" where
  "taken app msg \<longleftrightarrow> \<not> is_processing app \<and> strip msg \<noteq> [] \<and> tutor_service_ok app"

text \<open>The message dicts that the two calls of \<open>add_message_to_conversation\<close> of a
  turn append.\<close>

definition user_message :: "backend \<Rightarrow> string \<Rightarrow> message" where
  "user_message be msg =
     \<lparr>msg_id = uuid (user_stamp be), role = ''user'', content = msg,
      timestamp = ts (user_stamp be)\<rparr>"

definition assistant_message :: "backend \<Rightarrow> string \<Rightarrow> message" where
  "assistant_message be response =
     \<lparr>msg_id = uuid (reply_stamp be), role = ''assistant'', content = response,
      timestamp = ts (reply_stamp be)\<rparr>"

text \<open>No conversation to write to: the guard on the memory service and the
  conversation id fails, or the current conversation has no file that parses.\<close>

definition no_conversation :: "tutor_app \<Rightarrow> bool" where
  "no_conversation app \<longleftrightarrow>
     (case active_conversation app of
        None \<Rightarrow> True
      | Some c \<Rightarrow> (\<forall>d. conversations app c \<noteq> Some (Json d)))"


section \<open>Example backends and states\<close>

text \<open>A backend with every service down.\<close>

definition refused :: exn where
  "refused = Exn ''ConnectionError'' ''connection refused''"

definition offline_backend :: backend where
  "offline_backend =
     \<lparr>ollama_chat = (\<lambda>m. Inl refused),
      json_loads = (\<lambda>s. Inl (Exn ''JSONDecodeError'' ''Expecting value'')),
      translation_llm = (\<lambda>p. Inl refused),
      reasoning_llm = (\<lambda>s t. Inl refused),
      mem0_search = (\<lambda>q u. Inl refused),
      mem0_add = (\<lambda>r. Inl refused),
      user_stamp = \<lparr>uuid = ''id-1'', ts = ''t1'', upd = ''t2''\<rparr>,
      reply_stamp = \<lparr>uuid = ''id-2'', ts = ''t3'', upd = ''t4''\<rparr>,
      title_time = ''t5''\<rparr>"

text \<open>A router that answers with a tool call whose arguments are a string that is not JSON.\<close>

definition garbled_backend :: backend where
  "garbled_backend =
     offline_backend\<lparr>ollama_chat :=
       (\<lambda>m. Inr \<lparr>tool_calls = Some [\<lparr>tc_name = ''teach'', tc_arguments = RawStr ''{topic''\<rparr>],
                  msg_content = None\<rparr>)\<rparr>"

text \<open>An application with one empty conversation selected; an application whose
  store is empty and that has no conversation selected (as after a failed
  \<open>_new_chat\<close>); and a history of seven messages whose last is 201 characters long.\<close>

definition empty_chat :: conversation where
  "empty_chat = \<lparr>conv_id = ''c1'', title = ''New Chat'', created_at = ''t0'',
                  updated_at = ''t0'', messages = []\<rparr>"

definition demo_app :: tutor_app where
  "demo_app =
     \<lparr>memory_service_ok = True, tutor_service_ok = True, mem0_ok = True,
      current_conversation_id = Some ''c1'', user_id = ''ana'',
      user_profile = Some [''user_name'' \<mapsto> ''Ana'', ''target_language'' \<mapsto> ''French''],
      is_processing = False, pending_user_message = None,
      conversations = [''c1'' \<mapsto> Json empty_chat],
      mem0_records = [], chat_area = []\<rparr>"


definition user_says :: "string \<Rightarrow> message" where
  "user_says c = \<lparr>msg_id = ''m'', role = ''user'', content = c, timestamp = ''t0''\<rparr>"

definition history7 :: "message list" where
  "history7 = [user_says ''one'', user_says ''two'', user_says ''three'', user_says ''four'',
               user_says ''five'', user_says ''six'', user_says (replicate 201 (CHR ''a''))]"


definition trimmed_app :: tutor_app where
  "trimmed_app =
     demo_app\<lparr>conversations :=
       [''c1'' \<mapsto> Json \<lparr>conv_id = ''c1'', title = ''hi'', created_at = ''t0'',
          updated_at = ''t9'', messages =
            [\<lparr>msg_id = ''m2'', role = ''assistant'', content = ''Bonjour Ana!'',
              timestamp = ''t8''\<rparr>]\<rparr>]\<rparr>"


text \<open>A memory service whose translation log holds 100 elements, and one whose log
  file holds a JSON object.\<close>

definition full_log_service :: memory_service where
  "full_log_service =
     \<lparr>ms_user_id = ''u1'', chat_messages = [], memory_files = Map.empty,
      translation_files = [''u1'' \<mapsto> LogList (replicate 100 (Foreign ''null''))]\<rparr>"

definition ill_log_service :: memory_service where
  "ill_log_service =
     \<lparr>ms_user_id = ''u1'', chat_messages = [], memory_files = Map.empty,
      translation_files = [''u1'' \<mapsto> LogNotList ''dict'']\<rparr>"

section \<open>Properties of the conversation store\<close>

lemma load_conversation_eq:
  "load_conversation st c =
     Inr (case st c of Some (Json d) \<Rightarrow> messages d | _ \<Rightarrow> [])"
  by (simp add: load_conversation_def load_conversation_try_def
      split: option.splits conv_file.splits)

lemma add_message_to_conversation_eq:
  "add_message_to_conversation st c rl cnt s =
     Inr (case st c of
            Some (Json d) \<Rightarrow>
              (True, st(c \<mapsto> Json (d\<lparr>
                 messages := messages d @
                   [\<lparr>msg_id = uuid s, role = rl, content = cnt, timestamp = ts s\<rparr>],
                 updated_at := upd s\<rparr>)))
          | _ \<Rightarrow> (False, st))"
  by (simp add: add_message_to_conversation_def add_message_try_def
      split: option.splits conv_file.splits)

lemma update_conversation_title_eq:
  "update_conversation_title st c t now =
     Inr (case st c of
            Some (Json d) \<Rightarrow> (True, st(c \<mapsto> Json (d\<lparr>title := t, updated_at := now\<rparr>)))
          | _ \<Rightarrow> (False, st))"
  by (simp add: update_conversation_title_def update_title_try_def
      split: option.splits conv_file.splits)

lemma clear_conversation_eq:
  "clear_conversation st c now =
     Inr (case st c of
            Some (Json d) \<Rightarrow> (True, st(c \<mapsto> Json (d\<lparr>messages := [], updated_at := now\<rparr>)))
          | _ \<Rightarrow> (False, st))"
  by (simp add: clear_conversation_def clear_conversation_try_def
      split: option.splits conv_file.splits)

lemma filter_keeps_all:
  "x \<notin> f ` set xs \<Longrightarrow> filter (\<lambda>m. f m \<noteq> x) xs = xs"
  by (induction xs) auto

text \<open>
  Claim C6, as the code has it: for a conversation id with no file in the store,
  \<open>add_message_to_conversation\<close> does not raise; it returns \<open>False\<close> and leaves the store
  as it was, and \<open>load_conversation\<close> does not raise either and returns the empty list.
\<close>

theorem unknown_conversation_returns_failure_value:
  "st c = None \<Longrightarrow>
     add_message_to_conversation st c rl cnt s = Inr (False, st) \<and>
     load_conversation st c = Inr []"
  by (simp add: add_message_to_conversation_eq load_conversation_eq)

theorem unknown_conversation_returns_failure_value_witness:
  "(Map.empty :: store) ''0badc0de'' = None \<and>
   add_message_to_conversation Map.empty ''0badc0de'' ''user'' ''hola''
     \<lparr>uuid = ''u1'', ts = ''t1'', upd = ''t2''\<rparr> = Inr (False, Map.empty) \<and>
   load_conversation Map.empty ''0badc0de'' = Inr []"
  using unknown_conversation_returns_failure_value
    [of Map.empty "''0badc0de''" "''user''" "''hola''" "\<lparr>uuid = ''u1'', ts = ''t1'', upd = ''t2''\<rparr>"]
  by simp

text \<open>
  Claim C6 as stated fails: on the empty store, appending to the unknown id
  \<open>0badc0de\<close> and loading it raise no NotFound error (nor any other); they return the
  success-like values \<open>False\<close> and \<open>[]\<close>
  (\<open>isl\<close> holds of a raised exception only).
\<close>

theorem unknown_conversation_no_not_found_error:
  "\<not> isl (add_message_to_conversation Map.empty ''0badc0de'' ''user'' ''hola''
            \<lparr>uuid = ''u1'', ts = ''t1'', upd = ''t2''\<rparr>) \<and>
   \<not> isl (load_conversation Map.empty ''0badc0de'')"
  by (simp add: add_message_to_conversation_eq load_conversation_eq)

text \<open>
  Claim C9: \<open>delete_message_from_conversation\<close> never raises, and for an existing
  conversation and a message id that none of its messages carries it returns \<open>False\<close>
  and leaves the store unchanged, so the stored message sequence and its length are the
  same before and after.
\<close>

theorem delete_absent_message_is_noop:
  assumes "st c = Some (Json d)" and "mid \<notin> msg_id ` set (messages d)"
  shows "delete_message_from_conversation st c mid now = Inr (False, st) \<and>
         load_conversation st c = Inr (messages d)"
  using assms
  by (simp add: delete_message_from_conversation_def delete_message_try_def
      load_conversation_eq filter_keeps_all Let_def)

theorem delete_absent_message_is_noop_witness:
  "delete_message_from_conversation
     [''c1'' \<mapsto> Json \<lparr>conv_id = ''c1'', title = ''New Chat'', created_at = ''t0'',
        updated_at = ''t1'', messages =
          [\<lparr>msg_id = ''m1'', role = ''user'', content = ''hola'', timestamp = ''t1''\<rparr>]\<rparr>]
     ''c1'' ''m2'' ''t2''
   = Inr (False,
     [''c1'' \<mapsto> Json \<lparr>conv_id = ''c1'', title = ''New Chat'', created_at = ''t0'',
        updated_at = ''t1'', messages =
          [\<lparr>msg_id = ''m1'', role = ''user'', content = ''hola'', timestamp = ''t1''\<rparr>]\<rparr>])"
  using delete_absent_message_is_noop
    [of "[''c1'' \<mapsto> Json \<lparr>conv_id = ''c1'', title = ''New Chat'', created_at = ''t0'',
        updated_at = ''t1'', messages =
          [\<lparr>msg_id = ''m1'', role = ''user'', content = ''hola'', timestamp = ''t1''\<rparr>]\<rparr>]"
        "''c1''" _ "''m2''" "''t2''"]
  by simp

section \<open>Properties of the translation log\<close>

lemma save_memory_translation_files:
  "translation_files (save_memory ms) = translation_files ms"
  "ms_user_id (save_memory ms) = ms_user_id ms"
  by (simp_all add: save_memory_def save_memory_try_def)

lemma length_lastn: "length (lastn n xs) = min n (length xs)"
  by (simp add: lastn_def)

lemma lastn_all: "length xs \<le> n \<Longrightarrow> lastn n xs = xs"
  by (simp add: lastn_def)

lemma last_lastn: "0 < n \<Longrightarrow> xs \<noteq> [] \<Longrightarrow> last (lastn n xs) = last xs"
  by (simp add: lastn_def)

lemma add_translation_memory_eq:
  "add_translation_memory ms original translated src tgt md now =
     (True,
      (case read_log (translation_files ms (ms_user_id ms)) of
         Inl e \<Rightarrow> save_memory (ms\<lparr>chat_messages := chat_messages ms @
                   [(''human'', ''I want to translate: '' @ original),
                    (''ai'', ''Translation: '' @ translated)]\<rparr>)
       | Inr existing \<Rightarrow>
           (save_memory (ms\<lparr>chat_messages := chat_messages ms @
                   [(''human'', ''I want to translate: '' @ original),
                    (''ai'', ''Translation: '' @ translated)]\<rparr>))
           \<lparr>translation_files := (translation_files ms)(ms_user_id ms \<mapsto>
              (case dump_metadata (case md of None \<Rightarrow> [] | Some m \<Rightarrow> m) of
                 Inl e \<Rightarrow> LogUnparseable
               | Inr written \<Rightarrow>
                   LogList (lastn 100 (existing @
                     [Entry \<lparr>original_text = original, translated_text = translated,
                        source_language = src, target_language = tgt, logged_at = now,
                        metadata = written\<rparr>]))))\<rparr>))"
  by (simp add: add_translation_memory_def save_translation_to_log_def
      save_translation_to_log_try_def Let_def save_memory_translation_files lastn_all
      split: sum.splits)

text \<open>
  Claim C10, as the code has it: \<open>add_translation_memory\<close> always reports success.
  When the user's log file is absent or parses to a list, and \<open>json.dump\<close> can write
  the metadata, the log after the call holds at most 100 entries: it is the old list
  with the new entry appended, cut from the front to its last 100 elements, so the
  order of insertion is kept and the new entry is last; an old list of 100 or more
  leaves exactly 100, a shorter one loses nothing.  When the log file does not parse
  or is not a list, the file is left as it was.
\<close>

theorem translation_log_keeps_last_100:
  fixes ms :: memory_service
    and original translated src tgt now :: string
    and md :: "(string \<times> pyobj) list option"
  defines "ms' \<equiv> snd (add_translation_memory ms original translated src tgt md now)"
  shows "fst (add_translation_memory ms original translated src tgt md now) \<and>
         (\<forall>old written.
            read_log (translation_files ms (ms_user_id ms)) = Inr old \<and>
            dump_metadata (case md of None \<Rightarrow> [] | Some m \<Rightarrow> m) = Inr written \<longrightarrow>
            (\<exists>log entry.
               entry = Entry \<lparr>original_text = original, translated_text = translated,
                         source_language = src, target_language = tgt, logged_at = now,
                         metadata = written\<rparr> \<and>
               translation_files ms' (ms_user_id ms) = Some (LogList log) \<and>
               length log \<le> 100 \<and>
               log = drop (length old + 1 - 100) (old @ [entry]) \<and>
               last log = entry \<and>
               (100 \<le> length old \<longrightarrow> length log = 100) \<and>
               (length old < 100 \<longrightarrow> log = old @ [entry]))) \<and>
         ((\<exists>e. read_log (translation_files ms (ms_user_id ms)) = Inl e) \<longrightarrow>
            translation_files ms' = translation_files ms)"
  unfolding ms'_def add_translation_memory_eq
  by (auto simp: length_lastn last_lastn save_memory_translation_files lastn_def)

theorem translation_log_keeps_last_100_witness:
  "length (case translation_files (snd (add_translation_memory full_log_service
      ''good morning'' ''buenos dias'' ''English'' ''Spanish'' None ''t1'')) ''u1'' of
        Some (LogList log) \<Rightarrow> log | _ \<Rightarrow> []) = 100 \<and>
   translation_files (snd (add_translation_memory ill_log_service
      ''good morning'' ''buenos dias'' ''English'' ''Spanish'' None ''t1'')) =
     translation_files ill_log_service"
proof -
  have r: "read_log (translation_files full_log_service (ms_user_id full_log_service)) =
             Inr (replicate 100 (Foreign ''null''))"
    by (simp add: full_log_service_def)
  have w: "dump_metadata (case None of None \<Rightarrow> [] | Some m \<Rightarrow> m) = Inr []"
    by simp
  have i: "\<exists>e. read_log (translation_files ill_log_service (ms_user_id ill_log_service)) = Inl e"
    by (simp add: ill_log_service_def)
  from translation_log_keeps_last_100
         [of full_log_service "''good morning''" "''buenos dias''" "''English''" "''Spanish''"
            None "''t1''"] r w
       translation_log_keeps_last_100
         [of ill_log_service "''good morning''" "''buenos dias''" "''English''" "''Spanish''"
            None "''t1''"] i
  show ?thesis
    by (auto simp: full_log_service_def)
qed

text \<open>
  Claim C10 as stated fails.  With a log file that holds a JSON object, not a list,
  the call reports success and the file is as before: the new entry is not in the log.
  With a log of 100 elements and a metadata value that \<open>json.dump\<close> rejects, the call
  reports success and the file no longer parses: the 100 most recent entries do not
  remain.
\<close>

theorem translation_log_not_kept_on_failure:
  "add_translation_memory ill_log_service ''good morning'' ''buenos dias'' ''English''
     ''Spanish'' None ''t1'' =
     (True, ill_log_service\<lparr>chat_messages :=
        [(''human'', ''I want to translate: good morning''),
         (''ai'', ''Translation: buenos dias'')]\<rparr>) \<and>
   translation_files ill_log_service ''u1'' = Some (LogNotList ''dict'') \<and>
   fst (add_translation_memory full_log_service ''good morning'' ''buenos dias'' ''English''
     ''Spanish'' (Some [(''when'', NotJson ''datetime'')]) ''t1'') \<and>
   translation_files (snd (add_translation_memory full_log_service ''good morning''
     ''buenos dias'' ''English'' ''Spanish'' (Some [(''when'', NotJson ''datetime'')]) ''t1''))
     ''u1'' = Some LogUnparseable"
  by (simp add: add_translation_memory_eq full_log_service_def ill_log_service_def
      save_memory_def save_memory_try_def)

section \<open>Properties of the router\<close>

text \<open>
  Claim C1: \<open>_route_message\<close> never raises.  When the routing call raises, or the
  model's answer carries no tool call (the list is \<open>None\<close> or empty), the decision is
  the tool \<open>chat\<close> with the empty argument map.  When the first tool call carries its
  arguments as a string that \<open>json.loads\<close> rejects, the decision is that call's tool
  name with the empty argument map.
\<close>

theorem route_message_falls_back_to_chat:
  "(\<exists>r. route_message be m = Inr r) \<and>
   (\<forall>e. ollama_chat be m = Inl e \<longrightarrow>
      route_message be m = Inr \<lparr>tool = ''chat'', args = ADict Map.empty\<rparr>) \<and>
   (\<forall>resp. ollama_chat be m = Inr resp \<and> (tool_calls resp = None \<or> tool_calls resp = Some []) \<longrightarrow>
      route_message be m = Inr \<lparr>tool = ''chat'', args = ADict Map.empty\<rparr>) \<and>
   (\<forall>resp tc rest s e.
      ollama_chat be m = Inr resp \<and> tool_calls resp = Some (tc # rest) \<and>
      tc_arguments tc = RawStr s \<and> json_loads be s = Inl e \<longrightarrow>
      route_message be m = Inr \<lparr>tool = tc_name tc, args = ADict Map.empty\<rparr>)"
  by (auto simp: route_message_def route_try_def chat_route_def Let_def
      split: sum.splits option.splits list.splits raw_args.splits)

theorem route_message_falls_back_to_chat_witness:
  "route_message offline_backend ''hola'' = Inr \<lparr>tool = ''chat'', args = ADict Map.empty\<rparr> \<and>
   route_message garbled_backend ''what is ser?'' =
     Inr \<lparr>tool = ''teach'', args = ADict Map.empty\<rparr>"
  using route_message_falls_back_to_chat [of offline_backend "''hola''"]
    route_message_falls_back_to_chat [of garbled_backend "''what is ser?''"]
  by (simp add: offline_backend_def garbled_backend_def)

section \<open>Properties of execution\<close>

lemma conv_lines_window:
  "6 \<le> length h \<Longrightarrow>
     length (conv_lines h) = 6 \<and>
     (\<forall>i<6. conv_lines h ! i =
        role (h ! (length h - 6 + i)) @ '': '' @
        take 200 (content (h ! (length h - 6 + i))) @ ''...'')"
  by (simp add: conv_lines_def lastn_def)

text \<open>
  Claim C5 at a history of seven messages, six short ones and a last one of 201
  characters, in a \<open>chat\<close> execution: the context lines are the six most recent
  messages in their order, the first of the seven left out, but the line of the last
  message holds only the first 200 of its 201 characters, followed by three dots, and
  that is the text in the task handed to the reasoning model.  The content is not there
  verbatim.
\<close>

theorem conv_lines_cut_long_content:
  "content (last history7) = replicate 201 (CHR ''a'') \<and>
   conv_lines history7 =
     [''user: two...'', ''user: three...'', ''user: four...'', ''user: five...'',
      ''user: six...'', ''user: '' @ replicate 200 (CHR ''a'') @ ''...''] \<and>
   snd (execute_and_respond offline_backend ''chat'' (ADict Map.empty) ''hola'' [] Map.empty
          history7) =
     [ReasoningCall (system_prompt ''Student'' ''Spanish'' [])
        (''Student says: '' @ [CHR 0x22] @ ''hola'' @ [CHR 0x22] @
         ''\<newline>\<newline>user: two...\<newline>user: three...\<newline>user: four...\<newline>user: five...\<newline>user: six...\<newline>user: '' @
         replicate 200 (CHR ''a'') @
         ''...\<newline>\<newline>Respond naturally as their tutor. Be friendly and helpful.'')
        (Inl refused)]"
proof -
  have l: "conv_lines history7 =
     [''user: two...'', ''user: three...'', ''user: four...'', ''user: five...'',
      ''user: six...'', ''user: '' @ replicate 200 (CHR ''a'') @ ''...'']"
    by (simp add: conv_lines_def lastn_def history7_def user_says_def)
  have n: "history7 \<noteq> []"
    by (simp add: history7_def)
  have c: "content (last history7) = replicate 201 (CHR ''a'')"
    by (simp add: history7_def user_says_def)
  have b: "conv_block history7 =
     ''user: two...\<newline>user: three...\<newline>user: four...\<newline>user: five...\<newline>user: six...\<newline>user: '' @
         replicate 200 (CHR ''a'') @ ''...''"
    unfolding conv_block_def l using n by simp
  have e: "snd (execute_and_respond offline_backend ''chat'' (ADict Map.empty) ''hola'' [] Map.empty
          history7) =
     [ReasoningCall (system_prompt ''Student'' ''Spanish'' [])
        (''Student says: '' @ [CHR 0x22] @ ''hola'' @ [CHR 0x22] @ ''\<newline>\<newline>'' @
         conv_block history7 @
         ''\<newline>\<newline>Respond naturally as their tutor. Be friendly and helpful.'')
        (Inl refused)]"
    by (simp add: execute_and_respond_def Let_def task_prompt_def dict_get_def memory_block_def
        offline_backend_def)
  show ?thesis unfolding e b using c l by simp
qed





lemma get_response_offline:
  "fst (get_response offline_backend app msg h ms) =
     ''Sorry, I encountered an error: connection refused''"
  by (simp add: get_response_def chat_with_tutor_def execute_and_respond_def Let_def
      route_message_def route_try_def offline_backend_def chat_route_def task_prompt_def
      refused_def)

lemma get_response_offline_calls:
  "map call_outcome (snd (get_response offline_backend app msg h ms)) = [Inl refused]"
  by (simp add: get_response_def chat_with_tutor_def execute_and_respond_def Let_def
      route_message_def route_try_def offline_backend_def chat_route_def task_prompt_def)

section \<open>Properties of a turn\<close>

lemma active_conversation_cong:
  "memory_service_ok app' = memory_service_ok app \<Longrightarrow>
   current_conversation_id app' = current_conversation_id app \<Longrightarrow>
   active_conversation app' = active_conversation app"
  by (simp add: active_conversation_def)

lemma search_memories_cong:
  "mem0_ok app' = mem0_ok app \<Longrightarrow> user_id app' = user_id app \<Longrightarrow>
   search_memories be app' msg = search_memories be app msg"
  by (simp add: search_memories_def)

lemma get_response_cong:
  "user_profile app' = user_profile app \<Longrightarrow>
   get_response be app' msg h ms = get_response be app msg h ms"
  by (simp add: get_response_def)

lemma send_message_unfold:
  assumes "taken app msg"
  shows "send_message be app msg =
     (case (case active_conversation
                   (app\<lparr>is_processing := True, chat_area := chat_area app @ [(''user'', msg)]\<rparr>) of
              None \<Rightarrow>
                Inr (app\<lparr>is_processing := True, chat_area := chat_area app @ [(''user'', msg)]\<rparr>)
            | Some c \<Rightarrow>
                (case add_message_to_conversation
                        (conversations (app\<lparr>is_processing := True,
                           chat_area := chat_area app @ [(''user'', msg)]\<rparr>)) c ''user'' msg
                        (user_stamp be) of
                   Inl e \<Rightarrow> Inl e
                 | Inr (ok, st) \<Rightarrow>
                     Inr (app\<lparr>is_processing := True,
                              chat_area := chat_area app @ [(''user'', msg)],
                              conversations := st\<rparr>))) of
        Inl e \<Rightarrow> Inl e
      | Inr app2 \<Rightarrow>
          (case (case active_conversation app2 of
                   None \<Rightarrow> Inr []
                 | Some c \<Rightarrow> load_conversation (conversations app2) c) of
             Inl e \<Rightarrow> Inl e
           | Inr conversation_history \<Rightarrow>
               Inr (app2\<lparr>pending_user_message := Some msg\<rparr>,
                    Some (conversation_history, search_memories be app2 msg))))"
  using assms unfolding send_message_def taken_def Let_def by simp

lemma not_json_case:
  assumes "\<forall>d. x \<noteq> Some (Json d)"
  shows "(case x of Some (Json d) \<Rightarrow> g d | _ \<Rightarrow> h) = h"
proof (cases x)
  case None
  then show ?thesis by simp
next
  case (Some f)
  then show ?thesis using assms by (cases f) simp_all
qed

lemma send_message_in_conversation:
  assumes "taken app msg" and "active_conversation app = Some c"
    and "conversations app c = Some (Json d)"
  shows "send_message be app msg =
           Inr (app\<lparr>is_processing := True,
                    chat_area := chat_area app @ [(''user'', msg)],
                    conversations := (conversations app)(c \<mapsto> Json (d\<lparr>
                      messages := messages d @ [user_message be msg],
                      updated_at := upd (user_stamp be)\<rparr>)),
                    pending_user_message := Some msg\<rparr>,
                Some (messages d @ [user_message be msg], search_memories be app msg))"
proof -
  let ?app1 = "app\<lparr>is_processing := True, chat_area := chat_area app @ [(''user'', msg)]\<rparr>"
  have a1: "active_conversation ?app1 = Some c"
    using assms(2) active_conversation_cong [of ?app1 app] by simp
  have a2: "\<And>st. active_conversation (?app1\<lparr>conversations := st\<rparr>) = Some c"
    using assms(2) active_conversation_cong [of "?app1\<lparr>conversations := st\<rparr>" app for st]
    by simp
  have s2: "\<And>st. search_memories be (?app1\<lparr>conversations := st\<rparr>) msg = search_memories be app msg"
    by (rule search_memories_cong) simp_all
  show ?thesis unfolding send_message_unfold [OF assms(1)] a1
    by (simp add: add_message_to_conversation_eq assms(3) a2 s2 load_conversation_eq
        user_message_def)
qed

lemma send_message_no_conversation:
  assumes "taken app msg" and "no_conversation app"
  shows "send_message be app msg =
           Inr (app\<lparr>is_processing := True,
                    chat_area := chat_area app @ [(''user'', msg)],
                    pending_user_message := Some msg\<rparr>,
                Some ([], search_memories be app msg))"
proof -
  let ?app1 = "app\<lparr>is_processing := True, chat_area := chat_area app @ [(''user'', msg)]\<rparr>"
  have a1: "active_conversation ?app1 = active_conversation app"
    by (rule active_conversation_cong) simp_all
  have a2: "\<And>st. active_conversation (?app1\<lparr>conversations := st\<rparr>) = active_conversation app"
    by (rule active_conversation_cong) simp_all
  have s1: "search_memories be ?app1 msg = search_memories be app msg"
    by (rule search_memories_cong) simp_all
  have s2: "\<And>st. search_memories be (?app1\<lparr>conversations := st\<rparr>) msg = search_memories be app msg"
    by (rule search_memories_cong) simp_all
  show ?thesis
  proof (cases "active_conversation app")
    case None
    show ?thesis unfolding send_message_unfold [OF assms(1)] a1 None
      by (simp add: a1 s1 None)
  next
    case (Some c)
    then have f: "\<forall>d. conversations app c \<noteq> Some (Json d)"
      using assms(2) by (simp add: no_conversation_def)
    show ?thesis unfolding send_message_unfold [OF assms(1)] a1 Some
      by (simp add: add_message_to_conversation_eq a1 s1 a2 s2 Some load_conversation_eq
          not_json_case [OF f])
  qed
qed

lemma store_in_mem0_conversations:
  "conversations (store_in_mem0 be app r) = conversations app"
  by (simp add: store_in_mem0_def split: option.splits sum.splits)

lemma update_title_in_conversation:
  assumes "active_conversation app = Some c" and "conversations app c = Some (Json d)"
    and "messages d \<noteq> []"
  shows "update_title_of_current be app =
           app\<lparr>conversations := (conversations app)(c \<mapsto>
             Json (d\<lparr>title := title_of (content (hd (messages d))),
                     updated_at := title_time be\<rparr>))\<rparr>"
  using assms
  by (simp add: update_title_of_current_def load_conversation_eq update_conversation_title_eq
      Suc_le_eq)


lemma handle_response_in_conversation:
  assumes "active_conversation app = Some c" and "conversations app c = Some (Json d)"
  shows "handle_response be app response =
           Inr ((store_in_mem0 be
                  (app\<lparr>chat_area := chat_area app @ [(''assistant'', response)],
                       conversations := (conversations app)(c \<mapsto> Json (d\<lparr>
                          messages := messages d @ [assistant_message be response],
                          title := title_of (content (hd (messages d @
                                     [assistant_message be response]))),
                          updated_at := title_time be\<rparr>))\<rparr>)
                  response)\<lparr>is_processing := False\<rparr>)"
proof -
  let ?app1 = "app\<lparr>chat_area := chat_area app @ [(''assistant'', response)]\<rparr>"
  let ?d1 = "d\<lparr>messages := messages d @ [assistant_message be response],
                updated_at := upd (reply_stamp be)\<rparr>"
  let ?app2 = "?app1\<lparr>conversations := (conversations app)(c \<mapsto> Json ?d1)\<rparr>"
  have a1: "active_conversation ?app1 = Some c"
    using assms(1) active_conversation_cong [of ?app1 app] by simp
  have a2: "active_conversation ?app2 = Some c"
    using assms(1) active_conversation_cong [of ?app2 app] by simp
  have t: "update_title_of_current be ?app2 =
             ?app2\<lparr>conversations := (conversations ?app2)(c \<mapsto>
               Json (?d1\<lparr>title := title_of (content (hd (messages ?d1))),
                       updated_at := title_time be\<rparr>))\<rparr>"
    by (rule update_title_in_conversation [OF a2]) simp_all
  show ?thesis unfolding handle_response_def Let_def a1
    by (simp add: add_message_to_conversation_eq assms(2) assistant_message_def [symmetric] t)
qed


lemma hd_snoc2: "hd (xs @ [a, b]) = hd (xs @ [a])"
  by (cases xs) simp_all

lemma store_in_mem0_records:
  "mem0_records (store_in_mem0 be app r) =
     mem0_records app @
     (if mem0_ok app then
        (case pending_user_message app of
           None \<Rightarrow> []
         | Some p \<Rightarrow>
             (case mem0_add be (mem0_payload app p r) of
                Inl e \<Rightarrow> []
              | Inr u \<Rightarrow> [mem0_payload app p r]))
      else [])"
  by (simp add: store_in_mem0_def split: option.splits sum.splits)

lemma turn_in_conversation:
  assumes "taken app msg" and "active_conversation app = Some c"
    and "conversations app c = Some (Json d)"
    and "get_response be app msg (messages d @ [user_message be msg])
           (search_memories be app msg) = (reply, calls)"
  shows "\<exists>final. turn be app msg [] = Inr (final, Some (reply, calls)) \<and>
           conversations final =
             (conversations app)(c \<mapsto> Json (d\<lparr>
                messages := messages d @ [user_message be msg, assistant_message be reply],
                title := title_of (content (hd (messages d @ [user_message be msg]))),
                updated_at := title_time be\<rparr>)) \<and>
           mem0_records final =
             mem0_records app @
             (if mem0_ok app then
                (case mem0_add be (mem0_payload app msg reply) of
                   Inl e \<Rightarrow> []
                 | Inr u \<Rightarrow> [mem0_payload app msg reply])
              else [])"
proof -
  let ?d1 = "d\<lparr>messages := messages d @ [user_message be msg],
                updated_at := upd (user_stamp be)\<rparr>"
  let ?app1 = "app\<lparr>is_processing := True,
                    chat_area := chat_area app @ [(''user'', msg)],
                    conversations := (conversations app)(c \<mapsto> Json ?d1),
                    pending_user_message := Some msg\<rparr>"
  have s: "send_message be app msg =
             Inr (?app1, Some (messages d @ [user_message be msg], search_memories be app msg))"
    by (rule send_message_in_conversation [OF assms(1-3)])
  have g: "get_response be ?app1 msg (messages d @ [user_message be msg])
             (search_memories be app msg) = (reply, calls)"
    using assms(4) get_response_cong [of ?app1 app be msg] by simp
  have a1: "active_conversation ?app1 = Some c"
    using assms(2) active_conversation_cong [of ?app1 app] by simp
  have c1: "conversations ?app1 c = Some (Json ?d1)"
    by simp
  note h = handle_response_in_conversation [OF a1 c1, of be reply]
  have t: "turn be app msg [] = Inr (projr (handle_response be ?app1 reply), Some (reply, calls))"
    unfolding turn_def s by (simp add: g h)
  show ?thesis
    unfolding t h
    by (simp add: store_in_mem0_conversations store_in_mem0_records mem0_payload_def hd_snoc2
        split: sum.splits)
qed


lemma active_and_file:
  assumes "\<not> no_conversation app"
  obtains c d where "active_conversation app = Some c" and "conversations app c = Some (Json d)"
  using assms by (auto simp: no_conversation_def split: option.splits)

lemma no_conversation_excludes:
  "no_conversation app \<Longrightarrow> active_conversation app = Some c \<Longrightarrow>
   conversations app c \<noteq> Some (Json d)"
  by (simp add: no_conversation_def)






lemma taken_demo: "taken demo_app ''hola''"
  by (simp add: taken_def demo_app_def strip_def is_space_def)

lemma active_demo: "active_conversation demo_app = Some ''c1''"
  by (simp add: active_conversation_def demo_app_def)

lemma conv_demo: "conversations demo_app ''c1'' = Some (Json empty_chat)"
  by (simp add: demo_app_def)





text \<open>
  An event handled during the wait can undo the order: after a Clear the conversation
  holds the assistant's reply alone.
\<close>

lemma clear_during_turn:
  "map_option (\<lambda>f. case f of Json d \<Rightarrow> map role (messages d) | Unreadable \<Rightarrow> [])
     (conversations (fst (projr (turn offline_backend demo_app ''hola'' [ClearChat ''t6''])))
        ''c1'') = Some [''assistant'']"
proof -
  let ?d1 = "empty_chat\<lparr>messages := messages empty_chat @ [user_message offline_backend ''hola''],
                updated_at := upd (user_stamp offline_backend)\<rparr>"
  let ?app1 = "demo_app\<lparr>is_processing := True,
                    chat_area := chat_area demo_app @ [(''user'', ''hola'')],
                    conversations := (conversations demo_app)(''c1'' \<mapsto> Json ?d1),
                    pending_user_message := Some ''hola''\<rparr>"
  let ?h = "messages empty_chat @ [user_message offline_backend ''hola'']"
  let ?m = "search_memories offline_backend demo_app ''hola''"
  have s: "send_message offline_backend demo_app ''hola'' = Inr (?app1, Some (?h, ?m))"
    by (rule send_message_in_conversation [OF taken_demo active_demo conv_demo])
  obtain reply calls where g: "get_response offline_backend ?app1 ''hola'' ?h ?m = (reply, calls)"
    by (cases "get_response offline_backend ?app1 ''hola'' ?h ?m")
  have a1: "active_conversation ?app1 = Some ''c1''"
    using active_demo active_conversation_cong [of ?app1 demo_app] by simp
  let ?d2 = "?d1\<lparr>messages := [], updated_at := ''t6''\<rparr>"
  let ?app2 = "?app1\<lparr>conversations := (conversations ?app1)(''c1'' \<mapsto> Json ?d2),
                     chat_area := []\<rparr>"
  have c: "run_events [ClearChat ''t6''] ?app1 = ?app2"
    by (simp add: clear_chat_def a1 clear_conversation_eq)
  have a2: "active_conversation ?app2 = Some ''c1''"
    using active_demo active_conversation_cong [of ?app2 demo_app] by simp
  have c2: "conversations ?app2 ''c1'' = Some (Json ?d2)"
    by simp
  note h = handle_response_in_conversation [OF a2 c2, of offline_backend reply]
  have t: "turn offline_backend demo_app ''hola'' [ClearChat ''t6''] =
             Inr (projr (handle_response offline_backend ?app2 reply), Some (reply, calls))"
    unfolding turn_def s by (simp only: g c h sum.case prod.case option.case sum.sel)
  show ?thesis
    unfolding t h
    by (simp add: store_in_mem0_conversations assistant_message_def)
qed



lemma turn_offline_in_conversation:
  assumes "taken app msg" and "active_conversation app = Some c"
    and "conversations app c = Some (Json d)"
  shows "\<not> isl (turn offline_backend app msg []) \<and>
         map_option fst (snd (projr (turn offline_backend app msg []))) =
           Some ''Sorry, I encountered an error: connection refused'' \<and>
         map_option (map call_outcome \<circ> snd) (snd (projr (turn offline_backend app msg []))) =
           Some [Inl refused] \<and>
         conversations (fst (projr (turn offline_backend app msg []))) =
           (conversations app)(c \<mapsto> Json (d\<lparr>
              messages := messages d @
                [user_message offline_backend msg,
                 assistant_message offline_backend
                   ''Sorry, I encountered an error: connection refused''],
              title := title_of (content (hd (messages d @ [user_message offline_backend msg]))),
              updated_at := title_time offline_backend\<rparr>))"
proof -
  let ?h = "messages d @ [user_message offline_backend msg]"
  let ?m = "search_memories offline_backend app msg"
  obtain reply calls where g: "get_response offline_backend app msg ?h ?m = (reply, calls)"
    by (cases "get_response offline_backend app msg ?h ?m")
  have r: "reply = ''Sorry, I encountered an error: connection refused''"
    using get_response_offline [of app msg ?h ?m] g by simp
  have k: "map call_outcome calls = [Inl refused]"
    using get_response_offline_calls [of app msg ?h ?m] g by simp
  from turn_in_conversation [OF assms g] r k show ?thesis by auto
qed



section \<open>Properties of the title\<close>

lemma title_of_short: "length m \<le> 50 \<Longrightarrow> title_of m = m"
  by (simp add: title_of_def)

lemma title_of_long: "50 < length m \<Longrightarrow> title_of m = take 50 m @ ''...''"
  by (simp add: title_of_def)

text \<open>
  What \<open>_update_conversation_title\<close> writes in a turn with no other event of the
  interface, for a current conversation whose file parses: the title of the first
  stored message, which is the user's new message when the conversation was empty.
\<close>

lemma title_after_turn:
  assumes "taken app msg" and "active_conversation app = Some c"
    and "conversations app c = Some (Json d)"
  shows "\<exists>final r d'.
           turn be app msg [] = Inr (final, Some r) \<and>
           conversations final c = Some (Json d') \<and>
           title d' = title_of (content (hd (messages d @ [user_message be msg]))) \<and>
           (messages d = [] \<longrightarrow> title d' = title_of msg) \<and>
           (\<forall>m. (length m \<le> 50 \<longrightarrow> title_of m = m) \<and>
                (50 < length m \<longrightarrow> title_of m = take 50 m @ ''...''))"
proof -
  obtain reply calls where g:
    "get_response be app msg (messages d @ [user_message be msg])
       (search_memories be app msg) = (reply, calls)"
    by (cases "get_response be app msg (messages d @ [user_message be msg])
       (search_memories be app msg)")
  from turn_in_conversation [OF assms g] obtain final where
    t: "turn be app msg [] = Inr (final, Some (reply, calls))"
    and s: "conversations final =
             (conversations app)(c \<mapsto> Json (d\<lparr>
                messages := messages d @ [user_message be msg, assistant_message be reply],
                title := title_of (content (hd (messages d @ [user_message be msg]))),
                updated_at := title_time be\<rparr>))"
    by blast
  let ?d' = "d\<lparr>messages := messages d @ [user_message be msg, assistant_message be reply],
                title := title_of (content (hd (messages d @ [user_message be msg]))),
                updated_at := title_time be\<rparr>"
  have 1: "conversations final c = Some (Json ?d')"
    by (simp add: s)
  have 2: "title ?d' = title_of (content (hd (messages d @ [user_message be msg])))"
    by simp
  have 3: "messages d = [] \<longrightarrow> title ?d' = title_of msg"
    by (simp add: user_message_def)
  from t 1 2 3 title_of_short title_of_long show ?thesis
    by blast
qed

lemma title_after_first_turn:
  "\<exists>final r d'.
     turn offline_backend demo_app ''How do I order a coffee with milk in Spanish, then?'' [] =
       Inr (final, Some r) \<and>
     conversations final ''c1'' = Some (Json d') \<and>
     title d' = ''How do I order a coffee with milk in Spanish, then...''"
proof -
  have t: "taken demo_app ''How do I order a coffee with milk in Spanish, then?''"
    by (simp add: taken_def demo_app_def strip_def is_space_def)
  from title_after_turn [OF t active_demo conv_demo, of offline_backend]
  show ?thesis
    by (auto simp: empty_chat_def title_of_def)
qed

text \<open>
  Claim C4 at a conversation that holds one earlier message, an assistant's reply (the
  user's first message was deleted), and has the title \<open>hi\<close>: the turn leaves three
  messages, two once the user's message was appended, and yet a title is derived and
  written, from the assistant's reply.  The claim has the title derived only when the
  conversation holds exactly one message after the user's message was appended.
\<close>

theorem title_rederived_in_later_turn:
  "map_option (\<lambda>f. case f of Json d \<Rightarrow> (title d, map role (messages d)) | Unreadable \<Rightarrow> ([], []))
     (conversations trimmed_app ''c1'') = Some (''hi'', [''assistant'']) \<and>
   \<not> isl (turn offline_backend trimmed_app ''merci'' []) \<and>
   map_option (\<lambda>f. case f of Json d \<Rightarrow> (title d, map role (messages d)) | Unreadable \<Rightarrow> ([], []))
     (conversations (fst (projr (turn offline_backend trimmed_app ''merci'' []))) ''c1'') =
   Some (''Bonjour Ana!'', [''assistant'', ''user'', ''assistant''])"
proof -
  have t: "taken trimmed_app ''merci''"
    by (simp add: taken_def trimmed_app_def demo_app_def strip_def is_space_def)
  have a: "active_conversation trimmed_app = Some ''c1''"
    by (simp add: active_conversation_def trimmed_app_def demo_app_def)
  have c: "conversations trimmed_app ''c1'' =
             Some (Json \<lparr>conv_id = ''c1'', title = ''hi'', created_at = ''t0'',
               updated_at = ''t9'', messages =
                 [\<lparr>msg_id = ''m2'', role = ''assistant'', content = ''Bonjour Ana!'',
                   timestamp = ''t8''\<rparr>]\<rparr>)"
    by (simp add: trimmed_app_def)
  from turn_offline_in_conversation [OF t a c] c show ?thesis
    by (simp add: title_of_def user_message_def assistant_message_def)
qed

section \<open>Properties of context assembly\<close>

lemma search_memories_unavailable:
  "\<not> mem0_ok app \<or> (\<exists>e. mem0_search be msg (user_id app) = Inl e) \<Longrightarrow>
   search_memories be app msg = []"
  by (auto simp: search_memories_def)

text \<open>
  Claim C7: in a turn that \<open>_send_message\<close> takes, when Mem0 is absent or its search
  raises, \<open>_send_message\<close> raises nothing and hands on the empty list of memories,
  and the history it hands on is read from the store: for a current conversation with
  its file in the store, the stored messages with the user's new message last (there
  is no history only when there is no such conversation).
\<close>

theorem memory_failure_gives_empty_memories:
  assumes "taken app msg"
    and "\<not> mem0_ok app \<or> (\<exists>e. mem0_search be msg (user_id app) = Inl e)"
  shows "\<exists>app1 history.
           send_message be app msg = Inr (app1, Some (history, [])) \<and>
           (\<forall>c d. active_conversation app = Some c \<and> conversations app c = Some (Json d) \<longrightarrow>
              history = messages d @ [user_message be msg] \<and>
              load_conversation (conversations app1) c = Inr history) \<and>
           (no_conversation app \<longrightarrow> history = [])"
proof (cases "no_conversation app")
  case True
  from send_message_no_conversation [OF assms(1) True, of be]
    search_memories_unavailable [OF assms(2)] no_conversation_excludes [OF True]
  show ?thesis by auto
next
  case False
  then obtain c d where a: "active_conversation app = Some c"
    and s: "conversations app c = Some (Json d)"
    by (rule active_and_file)
  from send_message_in_conversation [OF assms(1) a s, of be]
    search_memories_unavailable [OF assms(2)] False a s
  show ?thesis by (auto simp: load_conversation_eq)
qed

theorem memory_failure_gives_empty_memories_witness:
  "\<exists>app1.
     send_message offline_backend demo_app ''hola'' =
       Inr (app1, Some ([user_message offline_backend ''hola''], [])) \<and>
     send_message offline_backend (demo_app\<lparr>mem0_ok := False\<rparr>) ''hola'' =
       Inr (app1\<lparr>mem0_ok := False\<rparr>, Some ([user_message offline_backend ''hola''], []))"
proof -
  have t2: "taken (demo_app\<lparr>mem0_ok := False\<rparr>) ''hola''"
    using taken_demo by (simp add: taken_def)
  have a2: "active_conversation (demo_app\<lparr>mem0_ok := False\<rparr>) = Some ''c1''"
    using active_demo active_conversation_cong [of "demo_app\<lparr>mem0_ok := False\<rparr>" demo_app]
    by simp
  have c2: "conversations (demo_app\<lparr>mem0_ok := False\<rparr>) ''c1'' = Some (Json empty_chat)"
    using conv_demo by simp
  have m1: "\<not> mem0_ok demo_app \<or>
            (\<exists>e. mem0_search offline_backend ''hola'' (user_id demo_app) = Inl e)"
    by (simp add: offline_backend_def)
  have m2: "\<not> mem0_ok (demo_app\<lparr>mem0_ok := False\<rparr>) \<or>
            (\<exists>e. mem0_search offline_backend ''hola'' (user_id (demo_app\<lparr>mem0_ok := False\<rparr>)) = Inl e)"
    by simp
  from memory_failure_gives_empty_memories [OF taken_demo m1]
    memory_failure_gives_empty_memories [OF t2 m2]
    send_message_in_conversation [OF taken_demo active_demo conv_demo, of offline_backend]
    send_message_in_conversation [OF t2 a2 c2, of offline_backend]
  show ?thesis
    by (simp add: empty_chat_def)
qed

section \<open>Properties of a translation turn\<close>








end
